theory Spec2Isabelle
  imports Main "HOL-Library.Multiset" "HOL-Library.Word"
begin

section \<open>Python values\<close>

text \<open>
  The program of \<^verbatim>\<open>clean_old_artifacts_parallel.py\<close> handles values that come out of
  \<^verbatim>\<open>json.loads\<close> without checking their types, so the embedding keeps them dynamically
  typed. A float is kept as its IEEE-754 bit pattern; the program only ever tests it for
  being zero. An object is kept as the list of its items, every key once, as
  \<^verbatim>\<open>json.loads\<close> builds the dict.
\<close>

text \<open>
  A Python string is the list of the code points of its characters (numbers below
  1114112; a surrogate, 55296 to 57343, is a character like any other until the string is
  encoded). The texts that the source writes out are ASCII; \<open>ascii\<close> gives the code
  points of such a text and \<open>ch\<close> the code point of one character.
\<close>

type_synonym ustring = "nat list"

abbreviation ascii :: "string \<Rightarrow> ustring" where
  "ascii s \<equiv> map of_char s"

abbreviation ch :: "char \<Rightarrow> nat" where
  "ch c \<equiv> of_char c"

datatype json =
    JNull
  | JBool bool
  | JInt int
  | JFloat "64 word"
  | JStr ustring
  | JArr "json list"
  | JObj "(ustring \<times> json) list"

text \<open>
  Every way in which the program stops abnormally: \<^verbatim>\<open>sys.exit(n)\<close>, an exception the
  source does not catch, or (inside a worker) an exception raised by
  \<^verbatim>\<open>subprocess.run\<close> other than \<^verbatim>\<open>CalledProcessError\<close>, kept with its text.
\<close>

datatype error =
    SystemExit int
  | JSONDecodeError
  | AttributeError
  | TypeError
  | KeyError
  | ValueError
  | UnicodeEncodeError
  | OtherException ustring

text \<open>Truth value of a Python object, as \<^verbatim>\<open>if not x\<close> tests it.\<close>

fun truthy :: "json \<Rightarrow> bool" where
  "truthy JNull = False"
| "truthy (JBool b) = b"
| "truthy (JInt i) = (i \<noteq> 0)"
| "truthy (JFloat w) = (push_bit 1 w \<noteq> 0)"
| "truthy (JStr s) = (s \<noteq> [])"
| "truthy (JArr xs) = (xs \<noteq> [])"
| "truthy (JObj kvs) = (kvs \<noteq> [])"

text \<open>\<^verbatim>\<open>for x in v\<close>: the items of a list, the characters of a string, the keys of a dict.\<close>

fun py_iter :: "json \<Rightarrow> error + json list" where
  "py_iter (JArr xs) = Inr xs"
| "py_iter (JStr s) = Inr (map (\<lambda>c. JStr [c]) s)"
| "py_iter (JObj kvs) = Inr (map (\<lambda>kv. JStr (fst kv)) kvs)"
| "py_iter _ = Inl TypeError"

text \<open>\<^verbatim>\<open>len(v)\<close>.\<close>

fun py_len :: "json \<Rightarrow> error + nat" where
  "py_len (JArr xs) = Inr (length xs)"
| "py_len (JStr s) = Inr (length s)"
| "py_len (JObj kvs) = Inr (length kvs)"
| "py_len _ = Inl TypeError"

text \<open>\<^verbatim>\<open>v.get(k, d)\<close>: only a dict has the method.\<close>

fun py_get :: "json \<Rightarrow> ustring \<Rightarrow> json \<Rightarrow> error + json" where
  "py_get (JObj kvs) k d = Inr (case map_of kvs k of None \<Rightarrow> d | Some v \<Rightarrow> v)"
| "py_get _ k d = Inl AttributeError"

text \<open>\<^verbatim>\<open>v[k]\<close> with a string key.\<close>

fun py_getitem :: "json \<Rightarrow> ustring \<Rightarrow> error + json" where
  "py_getitem (JObj kvs) k = (case map_of kvs k of None \<Rightarrow> Inl KeyError | Some v \<Rightarrow> Inr v)"
| "py_getitem _ k = Inl TypeError"

text \<open>\<^verbatim>\<open>sep.join(xs)\<close>: every item has to be a string.\<close>

fun py_join :: "ustring \<Rightarrow> json list \<Rightarrow> error + ustring" where
  "py_join sep [] = Inr []"
| "py_join sep [JStr s] = Inr s"
| "py_join sep (JStr s # x # xs) =
     (case py_join sep (x # xs) of Inl e \<Rightarrow> Inl e | Inr t \<Rightarrow> Inr (s @ sep @ t))"
| "py_join sep (_ # xs) = Inl TypeError"

text \<open>
  A Python \<^verbatim>\<open>set\<close>, kept as the list of its distinct elements in the order they were
  added. (Python does not fix the iteration order of a set; the one set of this program
  never holds more than one element.)
\<close>

type_synonym 'a pyset = "'a list"

definition set_add :: "'a \<Rightarrow> 'a pyset \<Rightarrow> 'a pyset" where
  "set_add x s = (if x \<in> set s then s else s @ [x])"

text \<open>
  \<^verbatim>\<open>s.strip()\<close> removes the white space at both ends: the characters for which
  \<^verbatim>\<open>str.isspace\<close> holds, listed here by code point.
\<close>

definition isspace :: "nat \<Rightarrow> bool" where
  "isspace c =
     (c \<in> {9, 10, 11, 12, 13, 28, 29, 30, 31, 32, 133, 160, 5760,
            8192, 8193, 8194, 8195, 8196, 8197, 8198, 8199, 8200, 8201, 8202,
            8232, 8233, 8239, 8287, 12288})"

definition strip :: "ustring \<Rightarrow> ustring" where
  "strip s = rev (dropWhile isspace (rev (dropWhile isspace s)))"

section \<open>Shell patterns\<close>

text \<open>
  \<^verbatim>\<open>fnmatch.fnmatch\<close> belongs to the Python library, not to this repository. The
  functions of the repository that call it take the matcher as a parameter; \<open>fnmatchcase\<close>
  below is the matcher on a POSIX host, where \<^verbatim>\<open>os.path.normcase\<close> is the identity. It
  follows \<^verbatim>\<open>fnmatch.translate\<close>: \<^verbatim>\<open>*\<close> matches everything, \<^verbatim>\<open>?\<close> one character,
  \<^verbatim>\<open>[seq]\<close> a character of \<open>seq\<close>, \<^verbatim>\<open>[!seq]\<close> a character not in \<open>seq\<close>, a \<^verbatim>\<open>[\<close> that is
  never closed matches itself.
\<close>

fun scan_for :: "nat \<Rightarrow> ustring \<Rightarrow> (ustring \<times> ustring) option" where
  "scan_for d [] = None"
| "scan_for d (c # cs) =
     (if c = d then Some ([], cs)
      else (case scan_for d cs of None \<Rightarrow> None | Some (a, b) \<Rightarrow> Some (c # a, b)))"

text \<open>
  The text between \<^verbatim>\<open>[\<close> and its closing \<^verbatim>\<open>]\<close> (\<^verbatim>\<open>stuff\<close> in the library), with what
  follows the \<^verbatim>\<open>]\<close>. A \<^verbatim>\<open>]\<close> that comes first, or first after \<^verbatim>\<open>!\<close>, does not close.
\<close>

definition bracket :: "ustring \<Rightarrow> (ustring \<times> ustring) option" where
  "bracket p =
     (let neg = (p \<noteq> [] \<and> hd p = ch CHR ''!'');
          p1 = (if neg then tl p else p);
          lit = (p1 \<noteq> [] \<and> hd p1 = ch CHR '']'');
          p2 = (if lit then tl p1 else p1)
      in (case scan_for (ch CHR '']'') p2 of
            None \<Rightarrow> None
          | Some (a, rest) \<Rightarrow>
              Some ((if neg then [ch CHR ''!''] else [])
                      @ (if lit then [ch CHR '']''] else []) @ a,
                    rest)))"

lemma scan_for_shorter: "scan_for d p = Some (a, rest) \<Longrightarrow> length rest < length p"
  by (induction p arbitrary: a rest) (auto split: if_splits option.splits)

lemma bracket_shorter: "bracket p = Some (stuff, rest) \<Longrightarrow> length rest \<le> length p"
  unfolding bracket_def Let_def
  by (auto split: option.splits if_splits dest!: scan_for_shorter)

text \<open>
  The library cuts \<^verbatim>\<open>stuff\<close> into chunks at the hyphens that make ranges: the last
  character of a chunk and the first of the next are the ends of a range. A hyphen makes
  a range when it is not among the first \<open>skip\<close> characters of its chunk (one, or two
  after \<^verbatim>\<open>!\<close>, in the first chunk; two in the others, the search going on at \<^verbatim>\<open>k+3\<close>)
  and is not the last character of \<^verbatim>\<open>stuff\<close>.
\<close>

function split_ranges :: "nat \<Rightarrow> ustring \<Rightarrow> ustring list" where
  "split_ranges skip s =
     (case scan_for (ch CHR ''-'') (drop skip s) of
        None \<Rightarrow> [s]
      | Some (a, rest) \<Rightarrow>
          if rest = [] then [s] else (take skip s @ a) # split_ranges 2 rest)"
  by pat_completeness auto
termination
  by (relation "measure (\<lambda>(skip, s). length s)")
     (auto dest: scan_for_shorter)

text \<open>
  Empty ranges are removed, from the last one back: the two ends go and the two chunks
  become one. (No chunk is empty when its end is read: the tests on \<open>[]\<close> never fail.)
\<close>

fun drop_empty :: "ustring list \<Rightarrow> ustring list" where
  "drop_empty (a # b # cs) =
     (case drop_empty (b # cs) of
        [] \<Rightarrow> [a]
      | b' # cs' \<Rightarrow>
          if a \<noteq> [] \<and> b' \<noteq> [] \<and> hd b' < last a then (butlast a @ tl b') # cs'
          else a # b' # cs')"
| "drop_empty cs = cs"

text \<open>
  The chunks are joined again with hyphens and make the set of a regular expression: a
  character is in it when it occurs in a chunk or lies in the range between two chunks.
\<close>

fun in_chunks :: "nat \<Rightarrow> ustring list \<Rightarrow> bool" where
  "in_chunks x [] = False"
| "in_chunks x [a] = (x \<in> set a)"
| "in_chunks x (a # b # cs) =
     (x \<in> set a \<or> (a \<noteq> [] \<and> b \<noteq> [] \<and> last a \<le> x \<and> x \<le> hd b) \<or> in_chunks x (b # cs))"

text \<open>
  What is left is read once more: nothing left matches no character; a \<^verbatim>\<open>!\<close> in front
  negates the set, also when it came to the front only because an empty range before it
  was removed; a \<^verbatim>\<open>!\<close> alone matches every character, and after a \<^verbatim>\<open>!\<close> that is a
  chunk of its own the hyphen that joins it to the next chunk stands for itself.
\<close>

definition seq_matches :: "nat \<Rightarrow> ustring \<Rightarrow> bool" where
  "seq_matches x stuff =
     (case drop_empty
             (split_ranges (if stuff \<noteq> [] \<and> hd stuff = ch CHR ''!'' then 2 else 1) stuff) of
        [] \<Rightarrow> False
      | a # rest \<Rightarrow>
          if a = [] then False
          else if hd a = ch CHR ''!'' then
            (if tl a = [] then
               (if rest = [] then True else \<not> (x = ch CHR ''-'' \<or> in_chunks x rest))
             else \<not> in_chunks x (tl a # rest))
          else in_chunks x (a # rest))"

function glob :: "ustring \<Rightarrow> ustring \<Rightarrow> bool" where
  "glob [] s = (s = [])"
| "glob (p # ps) [] = (if p = ch CHR ''*'' then glob ps [] else False)"
| "glob (p # ps) (c # cs) =
     (if p = ch CHR ''*'' then (if glob ps (c # cs) then True else glob (p # ps) cs)
      else if p = ch CHR ''?'' then glob ps cs
      else if p = ch CHR ''['' then
        (case bracket ps of
           None \<Rightarrow> (if c = p then glob ps cs else False)
         | Some (stuff, rest) \<Rightarrow> (if seq_matches c stuff then glob rest cs else False))
      else (if c = p then glob ps cs else False))"
  by pat_completeness auto
termination
  by (relation "measure (\<lambda>(p, s). length p + length s)")
     (auto dest: bracket_shorter)

definition fnmatchcase :: "ustring \<Rightarrow> ustring \<Rightarrow> bool" where
  "fnmatchcase name pat = glob pat name"

text \<open>
  The call \<^verbatim>\<open>fnmatch.fnmatch(name, pat)\<close> on Python objects: both arguments go through
  \<^verbatim>\<open>os.path.normcase\<close>, which raises \<^verbatim>\<open>TypeError\<close> on anything but a string.
\<close>

definition py_fnmatch :: "(ustring \<Rightarrow> ustring \<Rightarrow> bool) \<Rightarrow> json \<Rightarrow> json \<Rightarrow> error + bool" where
  "py_fnmatch fnm name pat =
     (case name of
        JStr n \<Rightarrow> (case pat of JStr p \<Rightarrow> Inr (fnm n p) | _ \<Rightarrow> Inl TypeError)
      | _ \<Rightarrow> Inl TypeError)"

section \<open>Exclusion matcher\<close>

text \<open>
  \<^verbatim>\<open>is_excluded(full_path, exclusion_patterns, matched_patterns)\<close>. The source mutates the
  set it is given; the model returns it. The loop returns at the first pattern that
  matches.
\<close>

fun is_excluded ::
  "(ustring \<Rightarrow> ustring \<Rightarrow> bool) \<Rightarrow> json \<Rightarrow> json list \<Rightarrow> json pyset \<Rightarrow> error + (bool \<times> json pyset)"
where
  "is_excluded fnm full_path [] matched_patterns = Inr (False, matched_patterns)"
| "is_excluded fnm full_path (pattern # rest) matched_patterns =
     (case py_fnmatch fnm full_path pattern of
        Inl e \<Rightarrow> Inl e
      | Inr True \<Rightarrow> Inr (True, set_add pattern matched_patterns)
      | Inr False \<Rightarrow> is_excluded fnm full_path rest matched_patterns)"

section \<open>The world outside the program\<close>

text \<open>
  What \<^verbatim>\<open>subprocess.run(cmd, capture_output=True, text=True, check=True)\<close> meets: the
  process ran and left an exit code with its two output streams (a code other than 0 then
  raises \<^verbatim>\<open>CalledProcessError\<close>), or the call itself raised another exception, kept
  with its text.
\<close>

datatype proc_result = Exited int ustring ustring | Failed ustring

text \<open>
  Library functions that the source calls and that are not part of the repository:
  \<^verbatim>\<open>json.loads\<close> (\<open>None\<close> stands for \<^verbatim>\<open>JSONDecodeError\<close>), \<^verbatim>\<open>fnmatch.fnmatch\<close>,
  \<^verbatim>\<open>str\<close> on a value that is not a string, and \<^verbatim>\<open>str\<close> on an exception.
\<close>

record lib =
  json_loads :: "ustring \<Rightarrow> json option"
  fnmatch :: "ustring \<Rightarrow> ustring \<Rightarrow> bool"
  repr :: "json \<Rightarrow> ustring"
  str_exc :: "error \<Rightarrow> ustring"

text \<open>
  The file system, the external tool and the scheduler. The search of the \<open>i\<close>-th
  repository of the run and the \<open>j\<close>-th deletion submitted for it have their own results;
  \<open>completion i\<close> lists the scheduler's choices for the \<open>i\<close>-th repository (see
  \<open>as_completed\<close>). \<open>session_suffix\<close> is the random part of the server id. A file that
  exists can be read, and the log and the report file can be opened and written to:
  input and output errors of the operating system are not part of the model.
\<close>

record world =
  path_exists :: "ustring \<Rightarrow> bool"
  file_text :: "ustring \<Rightarrow> ustring"
  session_suffix :: ustring
  run_setup :: "ustring list \<Rightarrow> proc_result"
  run_search :: "nat \<Rightarrow> ustring list \<Rightarrow> proc_result"
  run_delete :: "nat \<Rightarrow> nat \<Rightarrow> json list \<Rightarrow> proc_result"
  completion :: "nat \<Rightarrow> nat list"

text \<open>The parsed command line.\<close>

record args =
  artifactory_url :: ustring
  access_token :: ustring
  older_than :: ustring
  exclusions_file :: ustring
  aql_spec :: ustring
  dry_run :: bool
  threads :: int

datatype level = DEBUG | INFO | WARNING | ERROR

type_synonym log_line = "level \<times> ustring"

definition py_str :: "lib \<Rightarrow> json \<Rightarrow> ustring" where
  "py_str L v = (case v of JStr s \<Rightarrow> s | _ \<Rightarrow> repr L v)"

definition exc_text :: "lib \<Rightarrow> error \<Rightarrow> ustring" where
  "exc_text L e = (case e of OtherException m \<Rightarrow> m | _ \<Rightarrow> str_exc L e)"

text \<open>\<^verbatim>\<open>sub in s\<close> on strings.\<close>

fun contains :: "ustring \<Rightarrow> ustring \<Rightarrow> bool" where
  "contains sub [] = (sub = [])"
| "contains sub (c # cs) = (take (length sub) (c # cs) = sub \<or> contains sub cs)"

section \<open>Setup\<close>

definition jfrog_cli_configure :: "world \<Rightarrow> ustring \<Rightarrow> ustring \<Rightarrow> ustring \<Rightarrow> error + unit" where
  "jfrog_cli_configure W server_id url token =
     (let add_and_use =
        (case run_setup W [ascii ''jf'', ascii ''config'', ascii ''add'', server_id, ascii ''--url'', url,
                           (ascii ''--access-token''), token, ascii ''--interactive=false''] of
           Failed m \<Rightarrow> Inl (OtherException m)
         | Exited rc out err \<Rightarrow>
             if rc \<noteq> 0 then Inl (SystemExit 1)
             else (case run_setup W [ascii ''jf'', ascii ''config'', ascii ''use'', server_id] of
                     Failed m \<Rightarrow> Inl (OtherException m)
                   | Exited rc' out' err' \<Rightarrow> if rc' \<noteq> 0 then Inl (SystemExit 1) else Inr ()))
      in (case run_setup W [ascii ''jf'', ascii ''config'', ascii ''show''] of
            Failed m \<Rightarrow> Inl (OtherException m)
          | Exited rc out err \<Rightarrow>
              if rc = 0 \<and> contains server_id out then Inr () else add_and_use))"

definition load_exclusion_patterns :: "lib \<Rightarrow> world \<Rightarrow> ustring \<Rightarrow> error + json" where
  "load_exclusion_patterns L W json_path =
     (if \<not> path_exists W json_path then Inl (SystemExit 1)
      else (case json_loads L (file_text W json_path) of
              None \<Rightarrow> Inl JSONDecodeError
            | Some exclusions \<Rightarrow>
                (case py_get exclusions (ascii ''exclude'') (JArr []) of
                   Inl e \<Rightarrow> Inl e
                 | Inr patterns \<Rightarrow>
                     (case py_len patterns of Inl e \<Rightarrow> Inl e | Inr n \<Rightarrow> Inr patterns))))"

record repo =
  key :: json
  repo_class :: json

fun repo_entries :: "json list \<Rightarrow> error + repo list" where
  "repo_entries [] = Inr []"
| "repo_entries (r # rs) =
     (case py_getitem r (ascii ''key'') of
        Inl e \<Rightarrow> Inl e
      | Inr k \<Rightarrow>
          (case py_getitem r (ascii ''rclass'') of
             Inl e \<Rightarrow> Inl e
           | Inr c \<Rightarrow>
               (case repo_entries rs of
                  Inl e \<Rightarrow> Inl e
                | Inr xs \<Rightarrow> Inr (\<lparr>key = k, repo_class = c\<rparr> # xs))))"

definition repos_of_class :: "json \<Rightarrow> ustring \<Rightarrow> error + repo list" where
  "repos_of_class data c =
     (case py_get data c (JArr []) of
        Inl e \<Rightarrow> Inl e
      | Inr v \<Rightarrow> (case py_iter v of Inl e \<Rightarrow> Inl e | Inr rs \<Rightarrow> repo_entries rs))"

definition get_repositories :: "lib \<Rightarrow> world \<Rightarrow> error + repo list" where
  "get_repositories L W =
     (case run_setup W [ascii ''jf'', ascii ''rt'', ascii ''curl'', ascii ''-XGET'', ascii ''/api/repositories/configurations''] of
        Failed m \<Rightarrow> Inl (OtherException m)
      | Exited rc out err \<Rightarrow>
          if rc \<noteq> 0 then Inl (SystemExit 1)
          else (case json_loads L out of
                  None \<Rightarrow> Inl (SystemExit 1)
                | Some data \<Rightarrow>
                    (case repos_of_class data (ascii ''LOCAL'') of
                       Inl e \<Rightarrow> Inl e
                     | Inr a \<Rightarrow>
                         (case repos_of_class data (ascii ''FEDERATED'') of
                            Inl e \<Rightarrow> Inl e
                          | Inr b \<Rightarrow> Inr (a @ b)))))"

section \<open>Artifact finder\<close>

text \<open>
  \<^verbatim>\<open>get_old_artifacts\<close> returns the output of the search, or \<^verbatim>\<open>None\<close> when the search
  exits with an error; a missing query file ends the process. \<open>i\<close> is the position of the
  repository in the run.
\<close>

definition get_old_artifacts ::
  "lib \<Rightarrow> world \<Rightarrow> nat \<Rightarrow> ustring \<Rightarrow> ustring \<Rightarrow> json \<Rightarrow> error + ustring option"
where
  "get_old_artifacts L W i spec_path spec_timeframe repo =
     (if \<not> path_exists W spec_path then Inl (SystemExit 1)
      else
        (let spec_vars = (ascii ''timeframe='') @ spec_timeframe @ (ascii '';repo='') @ py_str L repo;
             command = [ascii ''jf'', ascii ''rt'', ascii ''search'', ascii ''--spec'', spec_path, ascii ''--spec-vars'', spec_vars]
         in (case run_search W i command of
               Failed m \<Rightarrow> Inl (OtherException m)
             | Exited rc out err \<Rightarrow> if rc = 0 then Inr (Some out) else Inr None)))"

text \<open>\<^verbatim>\<open>parse_artifacts\<close>, with the lines it logs.\<close>

definition parse_artifacts :: "lib \<Rightarrow> ustring \<Rightarrow> json \<times> log_line list" where
  "parse_artifacts L search_output =
     (case json_loads L search_output of
        None \<Rightarrow> (JArr [], [(ERROR, (ascii ''Failed to parse search response.''))])
      | Some data \<Rightarrow>
          (case data of
             JArr xs \<Rightarrow> (data, [])
           | JObj kvs \<Rightarrow>
               (case map_of kvs (ascii ''results'') of
                  Some v \<Rightarrow> (v, [])
                | None \<Rightarrow> (JArr [], [(WARNING, (ascii ''Unexpected data format in search output.''))]))
           | _ \<Rightarrow> (JArr [], [(WARNING, (ascii ''Unexpected data format in search output.''))])))"

section \<open>Deleting\<close>

definition build_delete_command :: "json \<Rightarrow> bool \<Rightarrow> json list" where
  "build_delete_command path dry =
     (let cmd = [JStr (ascii ''jf''), JStr (ascii ''rt''), JStr (ascii ''del''), path, JStr (ascii ''--quiet'')]
      in if dry then cmd @ [JStr (ascii ''--dry-run'')] else cmd)"

text \<open>
  \<^verbatim>\<open>execute_delete(cmd, logger)\<close> given what running \<open>cmd\<close> met: the pair the function
  returns (or the exception that leaves it), and the lines it logs.
\<close>

definition execute_delete ::
  "json list \<Rightarrow> proc_result \<Rightarrow> (error + bool \<times> ustring) \<times> log_line list"
where
  "execute_delete cmd res =
     (case res of
        Failed m \<Rightarrow> (Inl (OtherException m), [])
      | Exited rc out err \<Rightarrow>
          if rc = 0 then
            (case py_join (ascii '' '') cmd of
               Inl e \<Rightarrow> (Inl e, [])
             | Inr line \<Rightarrow>
                 (Inr (True, []),
                  [(INFO, (if JStr (ascii ''--dry-run'') \<in> set cmd then (ascii ''[DRYRUN-COMPLETE] '')
                           else (ascii ''[DELETED] '')) @ line)]))
          else
            (let error_msg = (if err \<noteq> [] then strip err else (ascii ''Unknown error''))
             in (case py_join (ascii '' '') cmd of
                   Inl e \<Rightarrow> (Inl e, [])
                 | Inr line \<Rightarrow>
                     (Inr (False, error_msg),
                      [(ERROR, (ascii ''[ERROR] Delete failed: '') @ line @ (ascii '' - '') @ error_msg)]))))"

section \<open>Delete dispatcher and report\<close>

text \<open>One row of the report, under the columns of \<^verbatim>\<open>csv_headers\<close>.\<close>

record csv_record =
  csv_repository :: json
  csv_path :: json
  csv_status :: ustring
  csv_exclusion_pattern :: ustring
  csv_error :: ustring

definition csv_headers :: "ustring list" where
  "csv_headers = [ascii ''Repository'', ascii ''Path'', ascii ''Status'', ascii ''Exclusion Pattern'', ascii ''Error'']"

text \<open>
  The loop over the artifacts of one repository (\<^verbatim>\<open>for item in artifacts\<close>): an excluded
  artifact gives a row at once, the others give the commands to run.
\<close>

fun check_exclusions ::
  "lib \<Rightarrow> json \<Rightarrow> json \<Rightarrow> bool \<Rightarrow> json list \<Rightarrow> csv_record list \<Rightarrow> json list list
     \<Rightarrow> error + (csv_record list \<times> json list list)"
where
  "check_exclusions L exclusion_patterns repo_key dry [] csv_records delete_commands =
     Inr (csv_records, delete_commands)"
| "check_exclusions L exclusion_patterns repo_key dry (item # items) csv_records delete_commands =
     (case py_get item (ascii ''path'') (JStr []) of
        Inl e \<Rightarrow> Inl e
      | Inr path \<Rightarrow>
          (case py_iter exclusion_patterns of
             Inl e \<Rightarrow> Inl e
           | Inr patterns \<Rightarrow>
               (case is_excluded (fnmatch L) path patterns [] of
                  Inl e \<Rightarrow> Inl e
                | Inr (excluded, matched_patterns) \<Rightarrow>
                    if excluded then
                      (case py_join (ascii '', '') matched_patterns of
                         Inl e \<Rightarrow> Inl e
                       | Inr joined \<Rightarrow>
                           check_exclusions L exclusion_patterns repo_key dry items
                             (csv_records @
                                [\<lparr>csv_repository = repo_key, csv_path = path,
                                  csv_status = (ascii ''skipped''), csv_exclusion_pattern = joined,
                                  csv_error = []\<rparr>])
                             delete_commands)
                    else
                      check_exclusions L exclusion_patterns repo_key dry items csv_records
                        (delete_commands @ [build_delete_command path dry]))))"

text \<open>
  \<^verbatim>\<open>as_completed\<close> hands out the futures in the order in which they finish: at every step
  one of those still pending, here the one the scheduler's next choice \<open>k\<close> points at;
  when the choices run out the rest finish in the order of submission. Every order of
  completion comes from some list of choices (\<open>as_completed_any_order\<close> below).
\<close>

fun as_completed :: "nat list \<Rightarrow> 'a list \<Rightarrow> 'a list" where
  "as_completed ks [] = []"
| "as_completed [] (f # fs) = f # fs"
| "as_completed (k # ks) (f # fs) =
     (f # fs) ! (k mod Suc (length fs))
       # as_completed ks (take (k mod Suc (length fs)) (f # fs)
                          @ drop (Suc (k mod Suc (length fs))) (f # fs))"

text \<open>The row written for one finished future (the body of the \<^verbatim>\<open>try\<close> in \<^verbatim>\<open>main\<close>).\<close>

definition collect_outcome :: "lib \<Rightarrow> json \<Rightarrow> json list \<times> (error + bool \<times> ustring) \<Rightarrow> csv_record" where
  "collect_outcome L repo_key fut =
     (case snd fut of
        Inr (success, error_msg) \<Rightarrow>
          \<lparr>csv_repository = repo_key, csv_path = fst fut ! 3,
           csv_status = (if success then (ascii ''deleted'') else (ascii ''error'')),
           csv_exclusion_pattern = [], csv_error = error_msg\<rparr>
      | Inl exc \<Rightarrow>
          \<lparr>csv_repository = repo_key, csv_path = fst fut ! 3,
           csv_status = (ascii ''Error''),
           csv_exclusion_pattern = [], csv_error = exc_text L exc\<rparr>)"

text \<open>
  The worker pool of one repository. \<^verbatim>\<open>ThreadPoolExecutor(max_workers=n)\<close> raises
  \<^verbatim>\<open>ValueError\<close> unless \<open>n\<close> is positive. The \<open>j\<close>-th command submitted runs
  \<open>execute_delete\<close>; its future is kept with its command as in \<^verbatim>\<open>future_to_cmd\<close>.
\<close>

definition delete_parallel ::
  "lib \<Rightarrow> world \<Rightarrow> args \<Rightarrow> nat \<Rightarrow> json \<Rightarrow> json list list \<Rightarrow> csv_record list
     \<Rightarrow> error + csv_record list"
where
  "delete_parallel L W A i repo_key delete_commands csv_records =
     (if threads A \<le> 0 then Inl ValueError
      else
        (let future_to_cmd =
               map (\<lambda>(j, cmd). (cmd, fst (execute_delete cmd (run_delete W i j cmd))))
                   (enumerate 0 delete_commands)
         in Inr (csv_records
                 @ map (collect_outcome L repo_key) (as_completed (completion W i) future_to_cmd))))"

text \<open>
  The dispatcher: what \<^verbatim>\<open>main\<close> does with the artifacts found in one repository, from
  \<^verbatim>\<open>delete_commands = []\<close> to the end of the \<^verbatim>\<open>with\<close> block.
\<close>

definition dispatch ::
  "lib \<Rightarrow> world \<Rightarrow> args \<Rightarrow> json \<Rightarrow> nat \<Rightarrow> json \<Rightarrow> json list \<Rightarrow> csv_record list
     \<Rightarrow> error + csv_record list"
where
  "dispatch L W A exclusion_patterns i repo_key items csv_records =
     (case check_exclusions L exclusion_patterns repo_key (dry_run A) items csv_records [] of
        Inl e \<Rightarrow> Inl e
      | Inr (csv_records', delete_commands) \<Rightarrow>
          delete_parallel L W A i repo_key delete_commands csv_records')"

text \<open>The body of \<^verbatim>\<open>for repo in repos\<close>, for the \<open>i\<close>-th repository.\<close>

definition process_repository ::
  "lib \<Rightarrow> world \<Rightarrow> args \<Rightarrow> json \<Rightarrow> nat \<Rightarrow> repo \<Rightarrow> csv_record list \<Rightarrow> error + csv_record list"
where
  "process_repository L W A exclusion_patterns i r csv_records =
     (case get_old_artifacts L W i (aql_spec A) (older_than A) (key r) of
        Inl e \<Rightarrow> Inl e
      | Inr None \<Rightarrow> Inr csv_records
      | Inr (Some raw_output) \<Rightarrow>
          if raw_output = [] then Inr csv_records
          else
            (let artifacts = fst (parse_artifacts L raw_output)
             in if \<not> truthy artifacts then Inr csv_records
                else
                  (case py_len artifacts of
                     Inl e \<Rightarrow> Inl e
                   | Inr n \<Rightarrow>
                       (case py_iter artifacts of
                          Inl e \<Rightarrow> Inl e
                        | Inr items \<Rightarrow>
                            dispatch L W A exclusion_patterns i (key r) items csv_records))))"

fun process_repositories ::
  "lib \<Rightarrow> world \<Rightarrow> args \<Rightarrow> json \<Rightarrow> nat \<Rightarrow> repo list \<Rightarrow> csv_record list \<Rightarrow> error + csv_record list"
where
  "process_repositories L W A exclusion_patterns i [] csv_records = Inr csv_records"
| "process_repositories L W A exclusion_patterns i (r # rs) csv_records =
     (case process_repository L W A exclusion_patterns i r csv_records of
        Inl e \<Rightarrow> Inl e
      | Inr csv_records' \<Rightarrow> process_repositories L W A exclusion_patterns (Suc i) rs csv_records')"

text \<open>
  Writing the report. \<^verbatim>\<open>csv.DictWriter\<close> writes a string as it is, \<^verbatim>\<open>None\<close> as
  the empty text and any other value through \<^verbatim>\<open>str\<close>; the quotes and separators it
  adds are ASCII. The file is opened with \<^verbatim>\<open>encoding="utf-8"\<close>, and a row is encoded
  when it is written: a surrogate code point in one of its fields raises
  \<^verbatim>\<open>UnicodeEncodeError\<close>, which nobody catches; the file then keeps the header and the
  rows written before.
\<close>

definition csv_text :: "lib \<Rightarrow> json \<Rightarrow> ustring" where
  "csv_text L v = (case v of JNull \<Rightarrow> [] | JStr s \<Rightarrow> s | _ \<Rightarrow> repr L v)"

definition row_texts :: "lib \<Rightarrow> csv_record \<Rightarrow> ustring list" where
  "row_texts L row =
     [csv_text L (csv_repository row), csv_text L (csv_path row), csv_status row,
      csv_exclusion_pattern row, csv_error row]"

definition utf8_encodable :: "ustring \<Rightarrow> bool" where
  "utf8_encodable s = list_all (\<lambda>c. c < 55296 \<or> 57343 < c) s"

fun write_rows :: "lib \<Rightarrow> csv_record list \<Rightarrow> error + unit" where
  "write_rows L [] = Inr ()"
| "write_rows L (row # rows) =
     (if list_all utf8_encodable (row_texts L row) then write_rows L rows
      else Inl UnicodeEncodeError)"

text \<open>
  \<^verbatim>\<open>main\<close>, after the command line has been parsed. It returns \<open>None\<close> when it returns
  without writing a report, and the header with the rows of the report it has written
  otherwise. The lines written to the log are left out.
\<close>

definition main :: "lib \<Rightarrow> world \<Rightarrow> args \<Rightarrow> error + (ustring list \<times> csv_record list) option" where
  "main L W A =
     (case jfrog_cli_configure W (ascii ''cli-config-'' @ session_suffix W)
             (artifactory_url A) (access_token A) of
        Inl e \<Rightarrow> Inl e
      | Inr configured \<Rightarrow>
          (case load_exclusion_patterns L W (exclusions_file A) of
             Inl e \<Rightarrow> Inl e
           | Inr exclusion_patterns \<Rightarrow>
               (case get_repositories L W of
                  Inl e \<Rightarrow> Inl e
                | Inr repos \<Rightarrow>
                    if repos = [] then Inr None
                    else
                      (case process_repositories L W A exclusion_patterns 0 repos [] of
                         Inl e \<Rightarrow> Inl e
                       | Inr csv_records \<Rightarrow>
                           (case write_rows L csv_records of
                              Inl e \<Rightarrow> Inl e
                            | Inr written \<Rightarrow> Inr (Some (csv_headers, csv_records)))))))"

text \<open>
  The status the process exits with: that of \<^verbatim>\<open>sys.exit\<close>, 1 after an exception nobody
  caught, 0 when \<^verbatim>\<open>main\<close> returns.
\<close>

fun exit_status :: "error + 'a \<Rightarrow> int" where
  "exit_status (Inr v) = 0"
| "exit_status (Inl (SystemExit n)) = n"
| "exit_status (Inl e) = 1"

section \<open>Notions used in the statements\<close>

text \<open>
  An artifact record as the data model has it: a JSON object whose \<^verbatim>\<open>path\<close>, when it
  has one, is a string. \<open>artifact_path\<close> is that path, the empty string when there is
  none.
\<close>

fun is_str :: "json \<Rightarrow> bool" where
  "is_str (JStr s) = True"
| "is_str _ = False"

definition artifact_record :: "json \<Rightarrow> bool" where
  "artifact_record item =
     (case item of
        JObj kvs \<Rightarrow> (case map_of kvs (ascii ''path'') of None \<Rightarrow> True | Some v \<Rightarrow> is_str v)
      | _ \<Rightarrow> False)"

definition artifact_path :: "json \<Rightarrow> ustring" where
  "artifact_path item =
     (case item of
        JObj kvs \<Rightarrow> (case map_of kvs (ascii ''path'') of Some (JStr p) \<Rightarrow> p | _ \<Rightarrow> [])
      | _ \<Rightarrow> [])"

text \<open>
  The values that \<^verbatim>\<open>len\<close> accepts: a list, a string, a dict. On \<^verbatim>\<open>None\<close>, a
  boolean or a number it raises \<^verbatim>\<open>TypeError\<close>.
\<close>

fun sized :: "json \<Rightarrow> bool" where
  "sized (JArr xs) = True"
| "sized (JStr s) = True"
| "sized (JObj kvs) = True"
| "sized _ = False"

text \<open>Some pattern of the list matches the path.\<close>

definition excluded_by :: "lib \<Rightarrow> ustring list \<Rightarrow> ustring \<Rightarrow> bool" where
  "excluded_by L S p = (\<exists>pat \<in> set S. fnmatch L p pat)"

text \<open>The row of an excluded artifact, and the futures of the commands submitted.\<close>

definition skip_row :: "lib \<Rightarrow> json \<Rightarrow> ustring list \<Rightarrow> json \<Rightarrow> csv_record" where
  "skip_row L rk S item =
     \<lparr>csv_repository = rk, csv_path = JStr (artifact_path item), csv_status = (ascii ''skipped''),
      csv_exclusion_pattern = the (find (fnmatch L (artifact_path item)) S), csv_error = []\<rparr>"

definition futures ::
  "world \<Rightarrow> nat \<Rightarrow> json list list \<Rightarrow> (json list \<times> (error + bool \<times> ustring)) list"
where
  "futures W i cmds =
     map (\<lambda>(j, cmd). (cmd, fst (execute_delete cmd (run_delete W i j cmd)))) (enumerate 0 cmds)"




text \<open>Every field of every row can be written to the report: none holds a surrogate.\<close>

definition report_encodable :: "lib \<Rightarrow> csv_record list \<Rightarrow> bool" where
  "report_encodable L rows = list_all (\<lambda>row. list_all utf8_encodable (row_texts L row)) rows"

section \<open>A concrete run\<close>

text \<open>
  A small installation on which the theorems below are instantiated: two local
  repositories and a remote one, an exclusion file with one pattern, a search that fails
  for the first repository and finds four artifacts in the second. Of the three deletions
  submitted the first succeeds, the second fails and the third cannot be started; the
  second is the first to finish.
\<close>

definition demo_exclusions :: ustring where
  \<open>demo_exclusions = (ascii ''{"exclude": ["*/ci-temp/*"]}'')\<close>

definition demo_listing :: ustring where
  \<open>demo_listing = (ascii ''{"LOCAL": [{"key": "libs-local", "rclass": "local"}, {"key": "builds-local", "rclass": "local"}], "REMOTE": [{"key": "hub", "rclass": "remote"}]}'')\<close>

definition demo_listing_remote_only :: ustring where
  \<open>demo_listing_remote_only = (ascii ''{"REMOTE": [{"key": "hub", "rclass": "remote"}]}'')\<close>

definition demo_found :: ustring where
  \<open>demo_found = (ascii ''[{"path": "a/ci-temp/1.zip"}, {"path": "b/rel/2.zip"}, {"path": "c/rel/3.zip"}, {"size": 3}]'')\<close>

definition demo_enveloped :: ustring where
  \<open>demo_enveloped = (ascii ''{"results": [{"path": "b/rel/2.zip"}]}'')\<close>

definition demo_exclusions_null :: ustring where
  \<open>demo_exclusions_null = (ascii ''{"exclude": null}'')\<close>

text \<open>
  A response whose one path holds the escape \<^verbatim>\<open>udc80\<close> after a backslash (code point
  92): \<^verbatim>\<open>json.loads\<close> reads it as the lone surrogate U+DC80 (56448).
\<close>

definition demo_found_surrogate :: ustring where
  \<open>demo_found_surrogate = (ascii ''[{"path": "a/ci-temp/'') @ [92] @ (ascii ''udc80.zip"}]'')\<close>

definition demo_loads :: "ustring \<Rightarrow> json option" where
  "demo_loads s =
     (if s = (ascii ''[]'') then Some (JArr [])
      else if s = (ascii ''{}'') then Some (JObj [])
      else if s = (ascii ''7'') then Some (JInt 7)
      else if s = demo_exclusions_null then Some (JObj [((ascii ''exclude''), JNull)])
      else if s = demo_found_surrogate
        then Some (JArr [JObj [((ascii ''path''), JStr (ascii ''a/ci-temp/'' @ [56448] @ ascii ''.zip''))]])
      else if s = demo_exclusions
        then Some (JObj [((ascii ''exclude''), JArr [JStr (ascii ''*/ci-temp/*'')])])
      else if s = demo_listing
        then Some (JObj [((ascii ''LOCAL''), JArr [JObj [((ascii ''key''), JStr (ascii ''libs-local'')), ((ascii ''rclass''), JStr (ascii ''local''))],
                                           JObj [((ascii ''key''), JStr (ascii ''builds-local'')), ((ascii ''rclass''), JStr (ascii ''local''))]]),
                         ((ascii ''REMOTE''), JArr [JObj [((ascii ''key''), JStr (ascii ''hub'')), ((ascii ''rclass''), JStr (ascii ''remote''))]])])
      else if s = demo_listing_remote_only
        then Some (JObj [((ascii ''REMOTE''), JArr [JObj [((ascii ''key''), JStr (ascii ''hub'')), ((ascii ''rclass''), JStr (ascii ''remote''))]])])
      else if s = demo_found
        then Some (JArr [JObj [((ascii ''path''), JStr (ascii ''a/ci-temp/1.zip''))],
                         JObj [((ascii ''path''), JStr (ascii ''b/rel/2.zip''))],
                         JObj [((ascii ''path''), JStr (ascii ''c/rel/3.zip''))],
                         JObj [((ascii ''size''), JInt 3)]])
      else if s = demo_enveloped
        then Some (JObj [((ascii ''results''), JArr [JObj [((ascii ''path''), JStr (ascii ''b/rel/2.zip''))]])])
      else None)"

definition demo_lib :: lib where
  "demo_lib = \<lparr>json_loads = demo_loads, fnmatch = fnmatchcase,
                repr = (\<lambda>v. (ascii ''?'')), str_exc = (\<lambda>e. (ascii ''?''))\<rparr>"

definition demo_world :: "ustring \<Rightarrow> ustring \<Rightarrow> world" where
  "demo_world exclusions listing =
     \<lparr>path_exists = (\<lambda>p. p = (ascii ''exclusions.json'') \<or> p = (ascii ''old.aql'')),
      file_text = (\<lambda>p. if p = (ascii ''exclusions.json'') then exclusions else []),
      session_suffix = (ascii ''0a1b2c3d''),
      run_setup =
        (\<lambda>cmd. if cmd = [ascii ''jf'', ascii ''rt'', ascii ''curl'', ascii ''-XGET'', ascii ''/api/repositories/configurations'']
                then Exited 0 listing [] else Exited 0 [] []),
      run_search = (\<lambda>i cmd. if i = 0 then Exited 1 [] (ascii ''not found'') else Exited 0 demo_found []),
      run_delete =
        (\<lambda>i j cmd. if j = 0 then Exited 0 [] []
                    else if j = 1 then Exited 1 [] (ascii '' locked '')
                    else Failed (ascii ''[Errno 2] No such file or directory'')),
      completion = (\<lambda>i. [1])\<rparr>"


definition demo_args :: args where
  "demo_args =
     \<lparr>artifactory_url = (ascii ''https://repo.example''), access_token = (ascii ''t0ken''),
      older_than = (ascii ''90d''), exclusions_file = (ascii ''exclusions.json''), aql_spec = (ascii ''old.aql''),
      dry_run = False, threads = 4\<rparr>"

definition demo_report :: "csv_record list" where
  "demo_report =
     [\<lparr>csv_repository = JStr (ascii ''builds-local''), csv_path = JStr (ascii ''a/ci-temp/1.zip''),
       csv_status = (ascii ''skipped''), csv_exclusion_pattern = (ascii ''*/ci-temp/*''), csv_error = []\<rparr>,
      \<lparr>csv_repository = JStr (ascii ''builds-local''), csv_path = JStr (ascii ''c/rel/3.zip''),
       csv_status = (ascii ''error''), csv_exclusion_pattern = [], csv_error = (ascii ''locked'')\<rparr>,
      \<lparr>csv_repository = JStr (ascii ''builds-local''), csv_path = JStr (ascii ''b/rel/2.zip''),
       csv_status = (ascii ''deleted''), csv_exclusion_pattern = [], csv_error = []\<rparr>,
      \<lparr>csv_repository = JStr (ascii ''builds-local''), csv_path = JStr [],
       csv_status = (ascii ''Error''), csv_exclusion_pattern = [],
       csv_error = (ascii ''[Errno 2] No such file or directory'')\<rparr>]"


section \<open>Auxiliary facts\<close>

subsection \<open>The exclusion loop on well-typed input\<close>

lemma is_excluded_find:
  "is_excluded fnm (JStr P) (map JStr S) [] =
     Inr (case find (fnm P) S of None \<Rightarrow> (False, []) | Some pat \<Rightarrow> (True, [JStr pat]))"
  by (induction S) (auto simp: py_fnmatch_def set_add_def)

lemma py_get_artifact:
  "artifact_record item \<Longrightarrow> py_get item (ascii ''path'') (JStr []) = Inr (JStr (artifact_path item))"
  apply (cases item; simp add: artifact_record_def artifact_path_def split: option.splits)
  subgoal for kvs v by (cases v) simp_all
  done

lemma find_None_excluded: "(find (fnmatch L p) S = None) = (\<not> excluded_by L S p)"
  by (auto simp: find_None_iff excluded_by_def)

lemma check_exclusions_wf:
  "list_all artifact_record items \<Longrightarrow>
   check_exclusions L (JArr (map JStr S)) rk dry items recs cmds =
     Inr (recs @ map (skip_row L rk S) (filter (\<lambda>it. excluded_by L S (artifact_path it)) items),
          cmds @ map (\<lambda>it. build_delete_command (JStr (artifact_path it)) dry)
                     (filter (\<lambda>it. \<not> excluded_by L S (artifact_path it)) items))"
proof (induction items arbitrary: recs cmds)
  case Nil
  then show ?case by simp
next
  case (Cons item items)
  then have rec: "artifact_record item" and rest: "list_all artifact_record items" by simp_all
  show ?case
  proof (cases "find (fnmatch L (artifact_path item)) S")
    case None
    then have "\<not> excluded_by L S (artifact_path item)" by (simp add: find_None_excluded)
    with None show ?thesis
      by (simp add: py_get_artifact [OF rec, simplified] is_excluded_find Cons.IH [OF rest])
  next
    case (Some pat)
    then have "excluded_by L S (artifact_path item)"
      using find_None_excluded [of L "artifact_path item" S] by simp
    with Some show ?thesis
      by (simp add: py_get_artifact [OF rec, simplified] is_excluded_find Cons.IH [OF rest] skip_row_def)
  qed
qed

lemma mset_map_filter_split:
  "mset (map f (filter P xs)) + mset (map f (filter (\<lambda>x. \<not> P x) xs)) = mset (map f xs)"
  by (induction xs) auto

subsection \<open>The worker pool\<close>

lemma mset_as_completed: "mset (as_completed ks fs) = mset fs"
proof (induction ks fs rule: as_completed.induct)
  case (3 k ks f fs)
  let ?xs = "f # fs" and ?n = "k mod Suc (length fs)"
  have n: "?n < length ?xs" by simp
  have "mset ?xs = mset (take ?n ?xs @ ?xs ! ?n # drop (Suc ?n) ?xs)"
    using id_take_nth_drop [OF n] by simp
  then show ?case using 3 by simp
qed simp_all

lemma length_as_completed: "length (as_completed ks fs) = length fs"
  using mset_as_completed [of ks fs] by (metis size_mset)

lemma set_as_completed: "set (as_completed ks fs) = set fs"
  using mset_as_completed [of ks fs] by (metis set_mset_mset)

lemma as_completed_any_order: "mset ys = mset xs \<Longrightarrow> \<exists>ks. as_completed ks xs = ys"
proof (induction ys arbitrary: xs)
  case Nil
  then have "xs = []" by simp
  then show ?case by simp
next
  case (Cons y ys)
  then have "y \<in> set xs" by (metis list.set_intros(1) set_mset_mset)
  then obtain n where n: "n < length xs" and y: "xs ! n = y"
    by (auto simp: in_set_conv_nth)
  let ?rest = "take n xs @ drop (Suc n) xs"
  have "mset xs = mset ?rest + {#y#}"
    using id_take_nth_drop [OF n] y
    by (metis add_mset_add_single mset.simps(2) mset_append union_mset_add_mset_right)
  with Cons.prems have "mset ys = mset ?rest" by simp
  from Cons.IH [OF this] obtain ks where ks: "as_completed ks ?rest = ys" by blast
  from n obtain f fs where xs: "xs = f # fs" by (cases xs) auto
  with n have "n mod Suc (length fs) = n" by simp
  with xs ks y have "as_completed (n # ks) xs = y # ys" by simp
  then show ?case by blast
qed

lemma as_completed_single: "as_completed ks [f] = [f]"
  by (cases ks) simp_all

lemma map_fst_futures: "map fst (futures W i cmds) = cmds"
proof -
  have "fst \<circ> (\<lambda>(j, cmd). (cmd, fst (execute_delete cmd (run_delete W i j cmd)))) = snd"
    by auto
  then show ?thesis by (simp add: futures_def)
qed

lemma delete_parallel_ok:
  "0 < threads A \<Longrightarrow>
   delete_parallel L W A i rk cmds recs =
     Inr (recs @ map (collect_outcome L rk) (as_completed (completion W i) (futures W i cmds)))"
  by (simp add: delete_parallel_def futures_def)

lemma collect_outcome_path: "csv_path (collect_outcome L rk fut) = fst fut ! 3"
  by (simp add: collect_outcome_def split: sum.splits prod.splits)

lemma collect_outcome_status:
  "csv_status (collect_outcome L rk fut) \<in> {(ascii ''deleted''), ascii ''error'', (ascii ''Error'')}"
  by (simp add: collect_outcome_def split: sum.splits prod.splits)

lemma build_delete_command_path: "build_delete_command p d ! 3 = p"
  by (simp add: build_delete_command_def Let_def)

lemma dispatch_wf:
  assumes "0 < threads A" and "list_all artifact_record items"
  shows "dispatch L W A (JArr (map JStr S)) i rk items recs =
           Inr (recs
                @ map (skip_row L rk S) (filter (\<lambda>it. excluded_by L S (artifact_path it)) items)
                @ map (collect_outcome L rk)
                    (as_completed (completion W i)
                       (futures W i
                          (map (\<lambda>it. build_delete_command (JStr (artifact_path it)) (dry_run A))
                               (filter (\<lambda>it. \<not> excluded_by L S (artifact_path it)) items)))))"
  using assms by (simp add: dispatch_def check_exclusions_wf delete_parallel_ok)

subsection \<open>The loop over the repositories\<close>



subsection \<open>Writing the report\<close>

lemma write_rows_encodable:
  "write_rows L rows = (if report_encodable L rows then Inr () else Inl UnicodeEncodeError)"
  by (induction rows) (simp_all add: report_encodable_def)

subsection \<open>The concrete run\<close>

lemmas demo_defs =
  demo_lib_def demo_world_def demo_args_def demo_loads_def demo_exclusions_def
  demo_listing_def demo_listing_remote_only_def demo_found_def demo_enveloped_def
  demo_exclusions_null_def demo_found_surrogate_def demo_report_def

lemmas run_defs =
  main_def jfrog_cli_configure_def load_exclusion_patterns_def get_repositories_def
  repos_of_class_def get_old_artifacts_def parse_artifacts_def process_repository_def
  dispatch_def delete_parallel_def collect_outcome_def execute_delete_def
  build_delete_command_def py_fnmatch_def fnmatchcase_def set_add_def py_str_def
  exc_text_def strip_def isspace_def csv_headers_def enumerate_eq_zip Let_def

lemma demo_conf:
  "jfrog_cli_configure (demo_world x l)
     ((ascii ''cli-config-'') @ session_suffix (demo_world x l))
     (artifactory_url demo_args) (access_token demo_args) = Inr ()"
  by (simp add: demo_world_def demo_args_def jfrog_cli_configure_def)

lemma demo_load:
  "load_exclusion_patterns demo_lib (demo_world demo_exclusions l) (exclusions_file demo_args)
     = Inr (JArr (map JStr [ascii ''*/ci-temp/*'']))"
  by (simp add: demo_defs run_defs)

lemma demo_repositories:
  "get_repositories demo_lib (demo_world x demo_listing)
     = Inr [\<lparr>key = JStr (ascii ''libs-local''), repo_class = JStr (ascii ''local'')\<rparr>,
            \<lparr>key = JStr (ascii ''builds-local''), repo_class = JStr (ascii ''local'')\<rparr>]"
  "get_repositories demo_lib (demo_world x demo_listing_remote_only) = Inr []"
  by (simp_all add: demo_defs run_defs)

lemma demo_first_repository:
  "process_repository demo_lib (demo_world demo_exclusions l) demo_args pats 0
     \<lparr>key = JStr (ascii ''libs-local''), repo_class = JStr (ascii ''local'')\<rparr> recs = Inr recs"
  by (simp add: process_repository_def get_old_artifacts_def demo_world_def demo_args_def)

lemma demo_second_repository:
  "process_repository demo_lib (demo_world demo_exclusions l) demo_args
     (JArr [JStr (ascii ''*/ci-temp/*'')]) (Suc 0)
     \<lparr>key = JStr (ascii ''builds-local''), repo_class = JStr (ascii ''local'')\<rparr> [] = Inr demo_report"
  by (simp add: demo_defs run_defs)

lemma demo_report_encodable: "report_encodable demo_lib demo_report"
  by (simp add: report_encodable_def demo_report_def row_texts_def csv_text_def
        utf8_encodable_def)

lemma demo_main:
  "main demo_lib (demo_world demo_exclusions demo_listing) demo_args
     = Inr (Some (csv_headers, demo_report))"
  using demo_conf [of demo_exclusions demo_listing] demo_load [of demo_listing]
        demo_repositories(1) [of demo_exclusions]
        demo_first_repository [of demo_listing] demo_second_repository [of demo_listing]
  by (simp add: main_def write_rows_encodable demo_report_encodable)



section \<open>Exclusion matcher: claims\<close>

text \<open>
  C4. For every path \<open>P\<close> and every list of patterns \<open>S\<close>, \<open>is_excluded\<close> answers true
  exactly when at least one pattern of \<open>S\<close> matches \<open>P\<close>. The matcher is applied to the
  path and to the pattern as they were received: nothing is done to either of them
  before. The statement holds for whatever function stands for \<^verbatim>\<open>fnmatch.fnmatch\<close>.
\<close>

theorem is_excluded_iff_some_pattern_matches:
  "\<exists>M'. is_excluded fnm (JStr P) (map JStr S) M = Inr ((\<exists>p \<in> set S. fnm P p), M')"
  by (induction S) (auto simp: py_fnmatch_def split: sum.splits bool.splits)

text \<open>
  On the POSIX matcher: the second pattern excludes the path; the same path in capitals,
  or with another separator, is not excluded.
\<close>

theorem is_excluded_iff_some_pattern_matches_witness:
  "(\<exists>M'. is_excluded fnmatchcase (JStr (ascii ''a/tmp/x.bak'')) (map JStr [ascii ''*.zip'', ascii ''*.bak'']) []
           = Inr (True, M'))
   \<and> (\<exists>M'. is_excluded fnmatchcase (JStr (ascii ''A/TMP/X.BAK'')) (map JStr [ascii ''*.zip'', ascii ''*.bak'']) []
           = Inr (False, M'))
   \<and> (\<exists>M'. is_excluded fnmatchcase (JStr (ascii ''a:tmp:x'')) (map JStr [ascii ''*/tmp/*'']) []
           = Inr (False, M'))"
  using is_excluded_iff_some_pattern_matches
          [of fnmatchcase "(ascii ''a/tmp/x.bak'')" "[ascii ''*.zip'', ascii ''*.bak'']" "[]"]
        is_excluded_iff_some_pattern_matches
          [of fnmatchcase "(ascii ''A/TMP/X.BAK'')" "[ascii ''*.zip'', ascii ''*.bak'']" "[]"]
        is_excluded_iff_some_pattern_matches
          [of fnmatchcase "(ascii ''a:tmp:x'')" "[ascii ''*/tmp/*'']" "[]"]
  by (simp add: fnmatchcase_def)

text \<open>
  C1. The claim is that \<open>is_excluded\<close> hands back every pattern that matches. The loop
  returns at the first match: on the path and the two patterns of the specification's own
  example both patterns match, and the set that comes back holds the first one only.
\<close>

theorem is_excluded_stops_at_first_match:
  "fnmatchcase (ascii ''a/tmp/x.bak'') (ascii ''*/tmp/*'')
   \<and> fnmatchcase (ascii ''a/tmp/x.bak'') (ascii ''*.bak'')
   \<and> is_excluded fnmatchcase (JStr (ascii ''a/tmp/x.bak'')) [JStr (ascii ''*/tmp/*''), JStr (ascii ''*.bak'')] []
       = Inr (True, [JStr (ascii ''*/tmp/*'')])"
  by (simp add: fnmatchcase_def py_fnmatch_def set_add_def)

section \<open>Artifact finder: claims\<close>

text \<open>
  C6. \<open>parse_artifacts\<close> returns the list itself when the response is a JSON list, the value
  under \<^verbatim>\<open>results\<close> when it is an object that has this key, and the empty list with a
  warning for every other JSON value. A response that is not JSON gives the empty list
  too, logged as an error. These are all the cases: the function always returns.
\<close>

theorem parse_artifacts_shapes:
  "(json_loads L s = Some (JArr xs) \<longrightarrow> parse_artifacts L s = (JArr xs, []))
   \<and> (json_loads L s = Some (JObj kvs) \<and> map_of kvs (ascii ''results'') = Some v
        \<longrightarrow> parse_artifacts L s = (v, []))
   \<and> (json_loads L s = Some d \<and> (\<forall>ys. d \<noteq> JArr ys)
        \<and> (\<forall>kvs'. d = JObj kvs' \<longrightarrow> map_of kvs' (ascii ''results'') = None)
        \<longrightarrow> parse_artifacts L s
              = (JArr [], [(WARNING, (ascii ''Unexpected data format in search output.''))]))
   \<and> (json_loads L s = None
        \<longrightarrow> parse_artifacts L s = (JArr [], [(ERROR, (ascii ''Failed to parse search response.''))]))"
  by (cases d) (auto simp: parse_artifacts_def split: option.splits json.splits)

theorem parse_artifacts_shapes_witness:
  "parse_artifacts demo_lib (ascii ''[]'') = (JArr [], [])
   \<and> parse_artifacts demo_lib demo_enveloped
       = (JArr [JObj [((ascii ''path''), JStr (ascii ''b/rel/2.zip''))]], [])
   \<and> parse_artifacts demo_lib (ascii ''7'')
       = (JArr [], [(WARNING, (ascii ''Unexpected data format in search output.''))])
   \<and> parse_artifacts demo_lib (ascii ''oops'')
       = (JArr [], [(ERROR, (ascii ''Failed to parse search response.''))])"
proof -
  have loads: "json_loads demo_lib (ascii ''[]'') = Some (JArr [])"
      "json_loads demo_lib demo_enveloped
         = Some (JObj [((ascii ''results''), JArr [JObj [((ascii ''path''), JStr (ascii ''b/rel/2.zip''))]])])"
      "json_loads demo_lib (ascii ''7'') = Some (JInt 7)"
      "json_loads demo_lib (ascii ''oops'') = None"
    by (simp_all add: demo_defs)
  from loads
       parse_artifacts_shapes [of demo_lib "(ascii ''[]'')" "[]"]
       parse_artifacts_shapes
         [of demo_lib demo_enveloped _
             "[((ascii ''results''), JArr [JObj [((ascii ''path''), JStr (ascii ''b/rel/2.zip''))]])]"
             "JArr [JObj [((ascii ''path''), JStr (ascii ''b/rel/2.zip''))]]"]
       parse_artifacts_shapes [of demo_lib "(ascii ''7'')" _ _ _ "JInt 7"]
       parse_artifacts_shapes [of demo_lib "(ascii ''oops'')"]
  show ?thesis by simp
qed

section \<open>Deleting: claims\<close>

text \<open>
  C7. The claim is that, for every artifact path, a dry run and a real run differ only in
  the flag \<^verbatim>\<open>--dry-run\<close> at the end of the command and in the label of the line logged
  for a success. The command and the classification are as claimed: the command of the
  dry run is the command of the real run followed by the flag, and whatever running the
  command meets, \<open>execute_delete\<close> returns the same for both (success exactly when the
  exit code is 0, otherwise the stripped error stream, or \<^verbatim>\<open>Unknown error\<close>, as the
  message). The label is not: it is chosen by the test \<^verbatim>\<open>"--dry-run" in cmd\<close>, which
  looks at the whole command, the path included. For the artifact whose path is the text
  \<^verbatim>\<open>--dry-run\<close>, the real run that deletes it logs \<^verbatim>\<open>[DRYRUN-COMPLETE]\<close>.
\<close>

theorem dry_run_label_taken_from_path:
  "build_delete_command path True = build_delete_command path False @ [JStr (ascii ''--dry-run'')]
   \<and> fst (execute_delete (build_delete_command path True) res)
       = fst (execute_delete (build_delete_command path False) res)
   \<and> fst (execute_delete (build_delete_command (JStr p) d) (Exited rc out err))
       = Inr (rc = 0, if rc = 0 then [] else if err \<noteq> [] then strip err else ascii ''Unknown error'')
   \<and> snd (execute_delete (build_delete_command (JStr p) True) (Exited 0 out err))
       = [(INFO, ascii ''[DRYRUN-COMPLETE] jf rt del '' @ p @ ascii '' --quiet --dry-run'')]
   \<and> snd (execute_delete (build_delete_command (JStr p) False) (Exited 0 out err))
       = [(INFO, (if p = ascii ''--dry-run'' then ascii ''[DRYRUN-COMPLETE] ''
                  else ascii ''[DELETED] '') @ ascii ''jf rt del '' @ p @ ascii '' --quiet'')]
   \<and> build_delete_command (JStr (ascii ''--dry-run'')) False
       = [JStr (ascii ''jf''), JStr (ascii ''rt''), JStr (ascii ''del''),
          JStr (ascii ''--dry-run''), JStr (ascii ''--quiet'')]
   \<and> execute_delete (build_delete_command (JStr (ascii ''--dry-run'')) False) (Exited 0 [] [])
       = (Inr (True, []), [(INFO, ascii ''[DRYRUN-COMPLETE] jf rt del --dry-run --quiet'')])"
proof (intro conjI)
  show "build_delete_command path True = build_delete_command path False @ [JStr (ascii ''--dry-run'')]"
    by (simp add: build_delete_command_def)
  show "fst (execute_delete (build_delete_command path True) res)
          = fst (execute_delete (build_delete_command path False) res)"
    by (cases res; cases path)
       (simp_all add: build_delete_command_def execute_delete_def Let_def)
  show "fst (execute_delete (build_delete_command (JStr p) d) (Exited rc out err))
          = Inr (rc = 0, if rc = 0 then [] else if err \<noteq> [] then strip err else ascii ''Unknown error'')"
    by (simp add: build_delete_command_def execute_delete_def Let_def)
  show "snd (execute_delete (build_delete_command (JStr p) True) (Exited 0 out err))
          = [(INFO, ascii ''[DRYRUN-COMPLETE] jf rt del '' @ p @ ascii '' --quiet --dry-run'')]"
    by (simp add: build_delete_command_def execute_delete_def Let_def)
  show "snd (execute_delete (build_delete_command (JStr p) False) (Exited 0 out err))
          = [(INFO, (if p = ascii ''--dry-run'' then ascii ''[DRYRUN-COMPLETE] ''
                     else ascii ''[DELETED] '') @ ascii ''jf rt del '' @ p @ ascii '' --quiet'')]"
    by (simp add: build_delete_command_def execute_delete_def Let_def)
  show "build_delete_command (JStr (ascii ''--dry-run'')) False
          = [JStr (ascii ''jf''), JStr (ascii ''rt''), JStr (ascii ''del''),
             JStr (ascii ''--dry-run''), JStr (ascii ''--quiet'')]"
    by (simp add: build_delete_command_def)
  show "execute_delete (build_delete_command (JStr (ascii ''--dry-run'')) False) (Exited 0 [] [])
          = (Inr (True, []), [(INFO, ascii ''[DRYRUN-COMPLETE] jf rt del --dry-run --quiet'')])"
    by (simp add: build_delete_command_def execute_delete_def Let_def)
qed

section \<open>Setup: claims\<close>

text \<open>
  C9. The claim is that an exclusion file that exists and parses but has no key
  \<^verbatim>\<open>exclude\<close> loads as the empty list, and that only a missing file or text that is
  not JSON is fatal. In the concrete installation the file \<^verbatim>\<open>[]\<close> exists, parses and
  has no key \<^verbatim>\<open>exclude\<close>: \<^verbatim>\<open>exclusions.get\<close> raises \<^verbatim>\<open>AttributeError\<close>, nothing
  catches it and the process exits with status 1. The file \<^verbatim>\<open>{"exclude": null}\<close>
  exists and parses too: \<^verbatim>\<open>len(patterns)\<close> raises \<^verbatim>\<open>TypeError\<close>, status 1 again.
\<close>

theorem exclusions_other_fatal_inputs:
  "path_exists (demo_world (ascii ''[]'') demo_listing) (exclusions_file demo_args)
   \<and> json_loads demo_lib
        (file_text (demo_world (ascii ''[]'') demo_listing) (exclusions_file demo_args))
       = Some (JArr [])
   \<and> load_exclusion_patterns demo_lib (demo_world (ascii ''[]'') demo_listing)
        (exclusions_file demo_args) = Inl AttributeError
   \<and> main demo_lib (demo_world (ascii ''[]'') demo_listing) demo_args = Inl AttributeError
   \<and> exit_status (main demo_lib (demo_world (ascii ''[]'') demo_listing) demo_args) = 1
   \<and> path_exists (demo_world demo_exclusions_null demo_listing) (exclusions_file demo_args)
   \<and> json_loads demo_lib
        (file_text (demo_world demo_exclusions_null demo_listing) (exclusions_file demo_args))
       = Some (JObj [(ascii ''exclude'', JNull)])
   \<and> load_exclusion_patterns demo_lib (demo_world demo_exclusions_null demo_listing)
        (exclusions_file demo_args) = Inl TypeError
   \<and> main demo_lib (demo_world demo_exclusions_null demo_listing) demo_args = Inl TypeError
   \<and> exit_status (main demo_lib (demo_world demo_exclusions_null demo_listing) demo_args) = 1"
proof -
  let ?W = "demo_world (ascii ''[]'') demo_listing"
  let ?V = "demo_world demo_exclusions_null demo_listing"
  have a: "path_exists ?W (exclusions_file demo_args)"
      "json_loads demo_lib (file_text ?W (exclusions_file demo_args)) = Some (JArr [])"
      "path_exists ?V (exclusions_file demo_args)"
      "json_loads demo_lib (file_text ?V (exclusions_file demo_args))
         = Some (JObj [(ascii ''exclude'', JNull)])"
    by (simp_all add: demo_defs)
  from a have b: "load_exclusion_patterns demo_lib ?W (exclusions_file demo_args)
                    = Inl AttributeError"
      "load_exclusion_patterns demo_lib ?V (exclusions_file demo_args) = Inl TypeError"
    by (simp_all add: load_exclusion_patterns_def)
  have c: "main demo_lib ?W demo_args = Inl AttributeError"
    using demo_conf [of "ascii ''[]''" demo_listing] b(1) by (simp add: main_def)
  have d: "main demo_lib ?V demo_args = Inl TypeError"
    using demo_conf [of demo_exclusions_null demo_listing] b(2) by (simp add: main_def)
  from a b c d show ?thesis by simp
qed

text \<open>
  C9, amended. When the exclusion file exists and holds a JSON object without the key
  \<^verbatim>\<open>exclude\<close>, the list of patterns that is loaded is empty, and with it the run goes
  on with no artifact excluded: every artifact record gives a delete command, none gives
  a skipped row. Loading fails exactly when the file is missing (the process exits with
  status 1), is not JSON (the exception of the parser is not caught, status 1 again),
  holds JSON that is not an object, or holds an object whose \<^verbatim>\<open>exclude\<close> is
  \<^verbatim>\<open>null\<close>, a boolean or a number; these last two stop the process with status 1 as
  well.
\<close>

theorem exclusions_without_key:
  "(path_exists W f \<and> json_loads L (file_text W f) = Some (JObj kvs)
      \<and> map_of kvs (ascii ''exclude'') = None
      \<longrightarrow> load_exclusion_patterns L W f = Inr (JArr []))
   \<and> (list_all artifact_record items
        \<longrightarrow> check_exclusions L (JArr []) rk dry items recs cmds
              = Inr (recs,
                     cmds @ map (\<lambda>it. build_delete_command (JStr (artifact_path it)) dry)
                                items))
   \<and> ((\<exists>e. load_exclusion_patterns L W f = Inl e)
          = (\<not> path_exists W f
             \<or> json_loads L (file_text W f) = None
             \<or> (\<exists>v. json_loads L (file_text W f) = Some v \<and> (\<forall>kvs'. v \<noteq> JObj kvs'))
             \<or> (\<exists>kvs' v. json_loads L (file_text W f) = Some (JObj kvs')
                    \<and> map_of kvs' (ascii ''exclude'') = Some v \<and> \<not> sized v)))
   \<and> (\<not> path_exists W f
        \<longrightarrow> load_exclusion_patterns L W f = Inl (SystemExit 1)
            \<and> exit_status (load_exclusion_patterns L W f) = 1)
   \<and> (path_exists W f \<and> json_loads L (file_text W f) = None
        \<longrightarrow> load_exclusion_patterns L W f = Inl JSONDecodeError
            \<and> exit_status (load_exclusion_patterns L W f) = 1)
   \<and> (path_exists W f \<and> json_loads L (file_text W f) = Some v \<and> (\<forall>kvs'. v \<noteq> JObj kvs')
        \<longrightarrow> load_exclusion_patterns L W f = Inl AttributeError
            \<and> exit_status (load_exclusion_patterns L W f) = 1)
   \<and> (path_exists W f \<and> json_loads L (file_text W f) = Some (JObj kvs)
        \<and> map_of kvs (ascii ''exclude'') = Some x \<and> \<not> sized x
        \<longrightarrow> load_exclusion_patterns L W f = Inl TypeError
            \<and> exit_status (load_exclusion_patterns L W f) = 1)"
proof (intro conjI impI)
  assume "path_exists W f \<and> json_loads L (file_text W f) = Some (JObj kvs)
            \<and> map_of kvs (ascii ''exclude'') = None"
  then show "load_exclusion_patterns L W f = Inr (JArr [])"
    by (simp add: load_exclusion_patterns_def)
next
  assume "list_all artifact_record items"
  from check_exclusions_wf [OF this, of L "[]" rk dry recs cmds]
  show "check_exclusions L (JArr []) rk dry items recs cmds
          = Inr (recs, cmds @ map (\<lambda>it. build_delete_command (JStr (artifact_path it)) dry) items)"
    by (simp add: excluded_by_def)
next
  show "(\<exists>e. load_exclusion_patterns L W f = Inl e)
          = (\<not> path_exists W f
             \<or> json_loads L (file_text W f) = None
             \<or> (\<exists>v. json_loads L (file_text W f) = Some v \<and> (\<forall>kvs'. v \<noteq> JObj kvs'))
             \<or> (\<exists>kvs' v. json_loads L (file_text W f) = Some (JObj kvs')
                    \<and> map_of kvs' (ascii ''exclude'') = Some v \<and> \<not> sized v))"
  proof (cases "path_exists W f")
    case False
    then show ?thesis by (simp add: load_exclusion_patterns_def)
  next
    case True
    show ?thesis
    proof (cases "json_loads L (file_text W f)")
      case None
      with True show ?thesis by (simp add: load_exclusion_patterns_def)
    next
      case (Some u)
      show ?thesis
      proof (cases u)
        case (JObj kvs')
        show ?thesis
        proof (cases "map_of kvs' (ascii ''exclude'')")
          case None
          with True Some JObj show ?thesis by (simp add: load_exclusion_patterns_def)
        next
          case inner: (Some y)
          with True Some JObj show ?thesis
            by (cases y) (simp_all add: load_exclusion_patterns_def)
        qed
      qed (use True Some in \<open>simp_all add: load_exclusion_patterns_def\<close>)
    qed
  qed
next
  assume "\<not> path_exists W f"
  then show "load_exclusion_patterns L W f = Inl (SystemExit 1)"
    and "exit_status (load_exclusion_patterns L W f) = 1"
    by (simp_all add: load_exclusion_patterns_def)
next
  assume "path_exists W f \<and> json_loads L (file_text W f) = None"
  then show "load_exclusion_patterns L W f = Inl JSONDecodeError"
    and "exit_status (load_exclusion_patterns L W f) = 1"
    by (simp_all add: load_exclusion_patterns_def)
next
  assume h: "path_exists W f \<and> json_loads L (file_text W f) = Some v \<and> (\<forall>kvs'. v \<noteq> JObj kvs')"
  then show "load_exclusion_patterns L W f = Inl AttributeError"
    by (cases v) (simp_all add: load_exclusion_patterns_def)
  then show "exit_status (load_exclusion_patterns L W f) = 1" by simp
next
  assume h: "path_exists W f \<and> json_loads L (file_text W f) = Some (JObj kvs)
               \<and> map_of kvs (ascii ''exclude'') = Some x \<and> \<not> sized x"
  then show "load_exclusion_patterns L W f = Inl TypeError"
    by (cases x) (simp_all add: load_exclusion_patterns_def)
  then show "exit_status (load_exclusion_patterns L W f) = 1" by simp
qed

text \<open>
  In the concrete installation: the file \<^verbatim>\<open>{}\<close> loads as the empty list and the
  artifacts found all give a command; a file that is absent, one that holds
  \<^verbatim>\<open>oops\<close>, one that holds \<^verbatim>\<open>7\<close> and one that holds \<^verbatim>\<open>{"exclude": null}\<close> end
  the process.
\<close>

theorem exclusions_without_key_witness:
  "load_exclusion_patterns demo_lib (demo_world (ascii ''{}'') demo_listing) (ascii ''exclusions.json'')
     = Inr (JArr [])
   \<and> check_exclusions demo_lib (JArr []) (JStr (ascii ''builds-local'')) False
        [JObj [((ascii ''path''), JStr (ascii ''a/ci-temp/1.zip''))], JObj [((ascii ''size''), JInt 3)]] [] []
       = Inr ([], [build_delete_command (JStr (ascii ''a/ci-temp/1.zip'')) False,
                   build_delete_command (JStr []) False])
   \<and> load_exclusion_patterns demo_lib (demo_world (ascii ''{}'') demo_listing) (ascii ''absent.json'')
       = Inl (SystemExit 1)
   \<and> load_exclusion_patterns demo_lib (demo_world (ascii ''oops'') demo_listing) (ascii ''exclusions.json'')
       = Inl JSONDecodeError
   \<and> load_exclusion_patterns demo_lib (demo_world (ascii ''7'') demo_listing) (ascii ''exclusions.json'')
       = Inl AttributeError
   \<and> load_exclusion_patterns demo_lib (demo_world demo_exclusions_null demo_listing)
        (ascii ''exclusions.json'')
       = Inl TypeError"
proof -
  let ?W = "demo_world (ascii ''{}'') demo_listing" and ?V = "demo_world (ascii ''oops'') demo_listing"
  let ?X = "demo_world (ascii ''7'') demo_listing"
  let ?Y = "demo_world demo_exclusions_null demo_listing"
  let ?items = "[JObj [((ascii ''path''), JStr (ascii ''a/ci-temp/1.zip''))], JObj [((ascii ''size''), JInt 3)]]"
  have h1: "path_exists ?W (ascii ''exclusions.json'')
              \<and> json_loads demo_lib (file_text ?W (ascii ''exclusions.json'')) = Some (JObj [])
              \<and> map_of ([] :: (ustring \<times> json) list) (ascii ''exclude'') = None"
    by (simp add: demo_defs)
  have h2: "list_all artifact_record ?items"
    by (simp add: artifact_record_def)
  have h3: "\<not> path_exists ?W (ascii ''absent.json'')"
    by (simp add: demo_defs)
  have h4: "path_exists ?V (ascii ''exclusions.json'')
              \<and> json_loads demo_lib (file_text ?V (ascii ''exclusions.json'')) = None"
    by (simp add: demo_defs)
  have h5: "path_exists ?X (ascii ''exclusions.json'')
              \<and> json_loads demo_lib (file_text ?X (ascii ''exclusions.json'')) = Some (JInt 7)
              \<and> (\<forall>kvs'. JInt 7 \<noteq> JObj kvs')"
    by (simp add: demo_defs)
  have h6: "path_exists ?Y (ascii ''exclusions.json'')
              \<and> json_loads demo_lib (file_text ?Y (ascii ''exclusions.json''))
                  = Some (JObj [(ascii ''exclude'', JNull)])
              \<and> map_of [(ascii ''exclude'', JNull)] (ascii ''exclude'') = Some JNull
              \<and> \<not> sized JNull"
    by (simp add: demo_defs)
  have paths: "map (\<lambda>it. build_delete_command (JStr (artifact_path it)) False) ?items
                 = [build_delete_command (JStr (ascii ''a/ci-temp/1.zip'')) False,
                    build_delete_command (JStr []) False]"
    by (simp add: artifact_path_def)
  from exclusions_without_key
         [where L = demo_lib and W = ?W and f = "ascii ''exclusions.json''" and kvs = "[]"
            and items = ?items and rk = "JStr (ascii ''builds-local'')"
            and dry = False and recs = "[]" and cmds = "[]"]
       h1 h2
  have a: "load_exclusion_patterns demo_lib ?W (ascii ''exclusions.json'') = Inr (JArr [])"
    and b: "check_exclusions demo_lib (JArr []) (JStr (ascii ''builds-local'')) False ?items [] []
              = Inr ([], map (\<lambda>it. build_delete_command (JStr (artifact_path it)) False) ?items)"
    by simp_all
  from exclusions_without_key [where L = demo_lib and W = ?W and f = "ascii ''absent.json''"] h3
  have c: "load_exclusion_patterns demo_lib ?W (ascii ''absent.json'') = Inl (SystemExit 1)"
    by blast
  from exclusions_without_key [where L = demo_lib and W = ?V and f = "ascii ''exclusions.json''"] h4
  have d: "load_exclusion_patterns demo_lib ?V (ascii ''exclusions.json'') = Inl JSONDecodeError"
    by blast
  from exclusions_without_key
         [where L = demo_lib and W = ?X and f = "ascii ''exclusions.json''" and v = "JInt 7"] h5
  have e: "load_exclusion_patterns demo_lib ?X (ascii ''exclusions.json'') = Inl AttributeError"
    by blast
  from exclusions_without_key
         [where L = demo_lib and W = ?Y and f = "ascii ''exclusions.json''"
            and kvs = "[(ascii ''exclude'', JNull)]" and x = JNull] h6
  have g: "load_exclusion_patterns demo_lib ?Y (ascii ''exclusions.json'') = Inl TypeError"
    by blast
  from a b c d e g show ?thesis by (simp only: paths simp_thms)
qed

section \<open>Dispatcher: claims\<close>

text \<open>
  C2. For every repository processed, the dispatcher turns the artifact records it is
  given into exactly as many rows as there are records: the paths of the rows are the
  paths of the records, one for one, and a row is a skipped row exactly when its path is
  excluded (otherwise it is the row of a delete attempt). This holds for every pool size
  that \<^verbatim>\<open>ThreadPoolExecutor\<close> accepts and for every order in which the deletions
  complete.
\<close>

theorem dispatch_one_outcome_per_artifact:
  assumes K: "0 < threads A" and wf: "list_all artifact_record items"
  shows "\<exists>out. dispatch L W A (JArr (map JStr S)) i rk items recs = Inr (recs @ out)
           \<and> length out = length items
           \<and> mset (map csv_path out) = mset (map (\<lambda>it. JStr (artifact_path it)) items)
           \<and> (\<forall>r \<in> set out. \<exists>p. csv_path r = JStr p
                  \<and> (csv_status r = (ascii ''skipped'')) = excluded_by L S p)"
proof -
  let ?ex = "\<lambda>it. excluded_by L S (artifact_path it)"
  let ?E = "filter ?ex items" and ?N = "filter (\<lambda>it. \<not> ?ex it) items"
  let ?cmds = "map (\<lambda>it. build_delete_command (JStr (artifact_path it)) (dry_run A)) ?N"
  let ?done = "as_completed (completion W i) (futures W i ?cmds)"
  let ?skips = "map (skip_row L rk S) ?E" and ?dels = "map (collect_outcome L rk) ?done"
  let ?out = "?skips @ ?dels"
  have run: "dispatch L W A (JArr (map JStr S)) i rk items recs = Inr (recs @ ?out)"
    using dispatch_wf [OF K wf] by simp
  have len: "length ?out = length items"
    using sum_length_filter_compl [of ?ex items]
    by (simp add: length_as_completed futures_def)
  have "mset (map csv_path ?dels) = image_mset (\<lambda>fut. fst fut ! 3) (mset ?done)"
    by (simp add: comp_def collect_outcome_path)
  also have "\<dots> = mset (map (\<lambda>c. c ! 3) (map fst (futures W i ?cmds)))"
    by (simp add: mset_as_completed comp_def)
  also have "\<dots> = mset (map (\<lambda>it. JStr (artifact_path it)) ?N)"
    by (simp add: map_fst_futures comp_def build_delete_command_path)
  finally have dels: "mset (map csv_path ?dels) = mset (map (\<lambda>it. JStr (artifact_path it)) ?N)" .
  have skips: "mset (map csv_path ?skips) = mset (map (\<lambda>it. JStr (artifact_path it)) ?E)"
    by (simp add: comp_def skip_row_def)
  have paths: "mset (map csv_path ?out) = mset (map (\<lambda>it. JStr (artifact_path it)) items)"
    using mset_map_filter_split [of "\<lambda>it. JStr (artifact_path it)" ?ex items]
    by (simp only: map_append mset_append dels skips)
  have each: "\<exists>p. csv_path r = JStr p \<and> (csv_status r = (ascii ''skipped'')) = excluded_by L S p"
    if r: "r \<in> set ?out" for r
  proof -
    from r consider (skip) "r \<in> set ?skips" | (del) "r \<in> set ?dels" by auto
    then show ?thesis
    proof cases
      case skip
      then obtain it where "?ex it" and "r = skip_row L rk S it" by auto
      then show ?thesis by (auto simp: skip_row_def)
    next
      case del
      then obtain fut where fut: "fut \<in> set (futures W i ?cmds)"
        and r': "r = collect_outcome L rk fut"
        by (auto simp: set_as_completed)
      from fut have "fst fut \<in> set (map fst (futures W i ?cmds))" by simp
      then have "fst fut \<in> set ?cmds" by (simp only: map_fst_futures)
      then obtain it where it: "\<not> ?ex it"
        and c: "fst fut = build_delete_command (JStr (artifact_path it)) (dry_run A)" by auto
      have "csv_path r = JStr (artifact_path it)"
        by (simp add: r' collect_outcome_path c build_delete_command_path)
      moreover have "csv_status r \<noteq> (ascii ''skipped'')"
        using collect_outcome_status [of L rk fut] by (auto simp: r')
      ultimately show ?thesis using it by simp
    qed
  qed
  from run len paths each show ?thesis by blast
qed

text \<open>
  In the concrete installation, with a pool of four threads, then of one thread and
  another order of completion: four records, four rows.
\<close>

theorem dispatch_one_outcome_per_artifact_witness:
  "(\<exists>out. dispatch demo_lib (demo_world demo_exclusions demo_listing) demo_args
            (JArr (map JStr [ascii ''*/ci-temp/*''])) 1 (JStr (ascii ''builds-local''))
            [JObj [((ascii ''path''), JStr (ascii ''a/ci-temp/1.zip''))], JObj [((ascii ''path''), JStr (ascii ''b/rel/2.zip''))],
             JObj [((ascii ''path''), JStr (ascii ''c/rel/3.zip''))], JObj [((ascii ''size''), JInt 3)]] []
          = Inr out \<and> length out = 4)
   \<and> (\<exists>out. dispatch demo_lib
            ((demo_world demo_exclusions demo_listing) \<lparr>completion := (\<lambda>i. [2, 1])\<rparr>)
            (demo_args \<lparr>threads := 1\<rparr>)
            (JArr (map JStr [ascii ''*/ci-temp/*''])) 1 (JStr (ascii ''builds-local''))
            [JObj [((ascii ''path''), JStr (ascii ''a/ci-temp/1.zip''))], JObj [((ascii ''path''), JStr (ascii ''b/rel/2.zip''))],
             JObj [((ascii ''path''), JStr (ascii ''c/rel/3.zip''))], JObj [((ascii ''size''), JInt 3)]] []
          = Inr out \<and> length out = 4)"
proof -
  let ?items = "[JObj [((ascii ''path''), JStr (ascii ''a/ci-temp/1.zip''))], JObj [((ascii ''path''), JStr (ascii ''b/rel/2.zip''))],
                 JObj [((ascii ''path''), JStr (ascii ''c/rel/3.zip''))], JObj [((ascii ''size''), JInt 3)]]"
  have K4: "0 < threads demo_args" and K1: "0 < threads (demo_args \<lparr>threads := 1\<rparr>)"
    by (simp_all add: demo_args_def)
  have wf: "list_all artifact_record ?items"
    by (simp add: artifact_record_def)
  from dispatch_one_outcome_per_artifact
         [OF K4 wf, of demo_lib "demo_world demo_exclusions demo_listing" "[ascii ''*/ci-temp/*'']"
            1 "JStr (ascii ''builds-local'')" "[]"]
       dispatch_one_outcome_per_artifact
         [OF K1 wf, of demo_lib
            "(demo_world demo_exclusions demo_listing) \<lparr>completion := (\<lambda>i. [2, 1])\<rparr>"
            "[ascii ''*/ci-temp/*'']" 1 "JStr (ascii ''builds-local'')" "[]"]
  show ?thesis by auto
qed

text \<open>
  C10. An artifact record without a \<^verbatim>\<open>path\<close> goes through the loop exactly as the same
  record with the empty string as its path does. Dispatched on its own it does not stop
  the program and gives one row, on the empty path: a skipped row when a pattern matches
  the empty string, the row of the attempt to delete the empty path otherwise.
\<close>

theorem record_without_path:
  assumes nopath: "map_of kvs (ascii ''path'') = None"
  shows "check_exclusions L pats rk dry (JObj kvs # items) recs cmds
           = check_exclusions L pats rk dry (JObj (((ascii ''path''), JStr []) # kvs) # items) recs cmds
         \<and> (0 < threads A \<longrightarrow>
              dispatch L W A (JArr (map JStr S)) i rk [JObj kvs] recs
                = Inr (recs @
                    [if excluded_by L S [] then skip_row L rk S (JObj kvs)
                     else collect_outcome L rk
                            (build_delete_command (JStr []) (dry_run A),
                             fst (execute_delete (build_delete_command (JStr []) (dry_run A))
                                    (run_delete W i 0
                                       (build_delete_command (JStr []) (dry_run A)))))])
              \<and> csv_path (skip_row L rk S (JObj kvs)) = JStr []
              \<and> csv_path (collect_outcome L rk
                            (build_delete_command (JStr []) (dry_run A), res)) = JStr [])"
proof (intro conjI impI)
  show "check_exclusions L pats rk dry (JObj kvs # items) recs cmds
          = check_exclusions L pats rk dry (JObj (((ascii ''path''), JStr []) # kvs) # items) recs cmds"
    using nopath by simp
next
  have p: "artifact_path (JObj kvs) = []" and wf: "list_all artifact_record [JObj kvs]"
    using nopath by (simp_all add: artifact_path_def artifact_record_def)
  show "csv_path (skip_row L rk S (JObj kvs)) = JStr []"
    by (simp add: skip_row_def p)
  show "csv_path (collect_outcome L rk (build_delete_command (JStr []) (dry_run A), res)) = JStr []"
    by (simp add: collect_outcome_path build_delete_command_path)
  assume K: "0 < threads A"
  show "dispatch L W A (JArr (map JStr S)) i rk [JObj kvs] recs
          = Inr (recs @
              [if excluded_by L S [] then skip_row L rk S (JObj kvs)
               else collect_outcome L rk
                      (build_delete_command (JStr []) (dry_run A),
                       fst (execute_delete (build_delete_command (JStr []) (dry_run A))
                              (run_delete W i 0 (build_delete_command (JStr []) (dry_run A)))))])"
    by (simp add: dispatch_wf [OF K wf] p futures_def enumerate_eq_zip as_completed_single)
qed

text \<open>
  The record \<^verbatim>\<open>{"size": 3}\<close> of the concrete installation: the pattern does not match
  the empty string, the deletion of the empty path is run and succeeds.
\<close>

theorem record_without_path_witness:
  "dispatch demo_lib (demo_world demo_exclusions demo_listing) demo_args
     (JArr (map JStr [ascii ''*/ci-temp/*''])) 1 (JStr (ascii ''builds-local'')) [JObj [((ascii ''size''), JInt 3)]] []
     = Inr [\<lparr>csv_repository = JStr (ascii ''builds-local''), csv_path = JStr [],
             csv_status = (ascii ''deleted''), csv_exclusion_pattern = [], csv_error = []\<rparr>]"
proof -
  have h: "map_of [((ascii ''size''), JInt 3)] (ascii ''path'') = None" by simp
  have K: "0 < threads demo_args" by (simp add: demo_args_def)
  from record_without_path
         [OF h, where L = demo_lib and A = demo_args
            and W = "demo_world demo_exclusions demo_listing" and S = "[ascii ''*/ci-temp/*'']"
            and i = 1 and rk = "JStr (ascii ''builds-local'')" and recs = "[]"] K
  show ?thesis
    by (simp add: excluded_by_def demo_defs run_defs)
qed

text \<open>
  C3. The claim is that a row never has a status other than \<^verbatim>\<open>skipped\<close>,
  \<^verbatim>\<open>deleted\<close> or \<^verbatim>\<open>error\<close>. The row written when \<^verbatim>\<open>future.result()\<close> raises has the
  status \<^verbatim>\<open>Error\<close>, with a capital letter: here for any exception, and in the report
  of the concrete installation, whose third deletion cannot be started.
\<close>

theorem unexpected_exception_status:
  "csv_status (collect_outcome L rk (cmd, Inl exc)) = (ascii ''Error'')
   \<and> (ascii ''Error'') \<notin> {(ascii ''skipped''), ascii ''deleted'', (ascii ''error'')}
   \<and> main demo_lib (demo_world demo_exclusions demo_listing) demo_args
       = Inr (Some (csv_headers, demo_report))
   \<and> csv_status (demo_report ! 3) = (ascii ''Error'')"
  by (simp add: collect_outcome_def demo_main demo_report_def)

section \<open>Loop over the repositories: claims\<close>

text \<open>
  C5. When the query file is there and the search of a repository exits with an error,
  \<open>get_old_artifacts\<close> returns \<^verbatim>\<open>None\<close>, the repository adds no row to the report, and
  the loop goes on with the next repository.
\<close>

theorem failed_query_is_skipped:
  assumes spec: "path_exists W (aql_spec A)"
    and failed: "run_search W i
                   [ascii ''jf'', ascii ''rt'', ascii ''search'', ascii ''--spec'', aql_spec A, ascii ''--spec-vars'',
                    (ascii ''timeframe='') @ older_than A @ (ascii '';repo='') @ py_str L (key r)]
                 = Exited rc out err"
    and rc: "rc \<noteq> 0"
  shows "get_old_artifacts L W i (aql_spec A) (older_than A) (key r) = Inr None
         \<and> process_repository L W A pats i r recs = Inr recs
         \<and> process_repositories L W A pats i (r # rs) recs
             = process_repositories L W A pats (Suc i) rs recs"
proof -
  have q: "get_old_artifacts L W i (aql_spec A) (older_than A) (key r) = Inr None"
    using spec failed rc by (simp add: get_old_artifacts_def)
  then have p: "process_repository L W A pats i r recs = Inr recs"
    by (simp add: process_repository_def)
  from q p show ?thesis by simp
qed

text \<open>
  In the concrete installation the search of the first repository fails and the second
  has four artifacts: the report has four rows, all of the second repository.
\<close>

theorem failed_query_is_skipped_witness:
  "process_repositories demo_lib (demo_world demo_exclusions demo_listing) demo_args
     (JArr [JStr (ascii ''*/ci-temp/*'')]) 0
     [\<lparr>key = JStr (ascii ''libs-local''), repo_class = JStr (ascii ''local'')\<rparr>,
      \<lparr>key = JStr (ascii ''builds-local''), repo_class = JStr (ascii ''local'')\<rparr>] []
     = Inr demo_report
   \<and> length demo_report = 4
   \<and> map csv_repository demo_report = replicate 4 (JStr (ascii ''builds-local''))"
proof -
  let ?W = "demo_world demo_exclusions demo_listing"
  let ?r = "\<lparr>key = JStr (ascii ''libs-local''), repo_class = JStr (ascii ''local'')\<rparr>"
  have spec: "path_exists ?W (aql_spec demo_args)"
    by (simp add: demo_defs)
  have failed: "run_search ?W 0
                  [ascii ''jf'', ascii ''rt'', ascii ''search'', ascii ''--spec'', aql_spec demo_args, ascii ''--spec-vars'',
                   (ascii ''timeframe='') @ older_than demo_args @ (ascii '';repo='') @ py_str demo_lib (key ?r)]
                = Exited 1 [] (ascii ''not found'')"
    by (simp add: demo_world_def)
  from failed_query_is_skipped [OF spec failed, of "JArr [JStr (ascii ''*/ci-temp/*'')]" "[]"
         "[\<lparr>key = JStr (ascii ''builds-local''), repo_class = JStr (ascii ''local'')\<rparr>]"]
  have "process_repositories demo_lib ?W demo_args (JArr [JStr (ascii ''*/ci-temp/*'')]) 0
          [?r, \<lparr>key = JStr (ascii ''builds-local''), repo_class = JStr (ascii ''local'')\<rparr>] []
        = process_repositories demo_lib ?W demo_args (JArr [JStr (ascii ''*/ci-temp/*'')]) (Suc 0)
            [\<lparr>key = JStr (ascii ''builds-local''), repo_class = JStr (ascii ''local'')\<rparr>] []"
    by simp
  also have "\<dots> = Inr demo_report"
    using demo_second_repository [of demo_listing] by simp
  finally show ?thesis by (simp add: demo_report_def numeral_eq_Suc)
qed

section \<open>The whole run: claims\<close>




end
